theory Spec2Isabelle
  imports Complex_Main
begin

section \<open>The OAK-D camera wrapper (\<^verbatim>\<open>openVO/oakd/camera.py\<close>)\<close>

text \<open>
  The class \<^verbatim>\<open>OAK_Camera\<close> reads the factory calibration of the device in its
  constructor, derives two rectification homographies and the reprojection matrix
  \<^verbatim>\<open>Q\<close>, declares a pipeline of camera nodes, polls the output queues of the device
  in a worker thread and reprojects the disparity map on demand.

  Conventions of the embedding:
  \<^item> numbers that are floats in Python are \<^typ>\<open>real\<close>: the arithmetic is exact and
    rounding (also the one of \<^verbatim>\<open>np.float32\<close>) is not modelled;
  \<^item> the device, its calibration handler, its queues and OpenCV are not part of the
    repository: the calibration handler is a record of the values its methods return,
    what a queue delivers is an input of the acquisition loop, and
    \<^verbatim>\<open>cv2.reprojectImageTo3D\<close> is a parameter of \<^verbatim>\<open>compute_3d\<close>;
  \<^item> a raised exception is the left summand of the result, and a call that does not
    return has the result \<open>None\<close>;
  \<^item> the calls made on the device API are logged, in order.
\<close>

subsection \<open>Errors\<close>

datatype error =
    NotImplementedError int int  \<comment> \<open>"Resolution not implemented: w, h"\<close>
  | ZeroDivisionError            \<comment> \<open>Python's float division by zero\<close>
  | LinAlgError                  \<comment> \<open>\<^verbatim>\<open>np.linalg.inv\<close> on a singular matrix\<close>
  | AttributeError string        \<comment> \<open>the attribute that is missing\<close>

subsection \<open>Matrices\<close>

text \<open>
  The calibration API returns 3-by-3 matrices (intrinsics, rectification rotations);
  the type fixes that shape. \<^verbatim>\<open>np.matmul\<close> is the matrix product and
  \<^verbatim>\<open>np.linalg.inv\<close> the inverse, which raises on a singular matrix.
\<close>

type_synonym vec3 = "real \<times> real \<times> real"
type_synonym mat3 = "vec3 \<times> vec3 \<times> vec3"

fun rows_of :: "mat3 \<Rightarrow> real list list" where
  "rows_of ((a11, a12, a13), (a21, a22, a23), (a31, a32, a33)) =
     [[a11, a12, a13], [a21, a22, a23], [a31, a32, a33]]"

definition mat_at :: "mat3 \<Rightarrow> nat \<Rightarrow> nat \<Rightarrow> real" where
  \<comment> \<open>\<^verbatim>\<open>M[i, j]\<close>; the source only uses the in-range indices (0,0), (0,2), (1,2)\<close>
  "mat_at M i j = rows_of M ! i ! j"

definition identity3 :: mat3 where
  "identity3 = ((1, 0, 0), (0, 1, 0), (0, 0, 1))"

fun matmul :: "mat3 \<Rightarrow> mat3 \<Rightarrow> mat3" where
  "matmul ((a11, a12, a13), (a21, a22, a23), (a31, a32, a33))
          ((b11, b12, b13), (b21, b22, b23), (b31, b32, b33)) =
     ((a11 * b11 + a12 * b21 + a13 * b31,
       a11 * b12 + a12 * b22 + a13 * b32,
       a11 * b13 + a12 * b23 + a13 * b33),
      (a21 * b11 + a22 * b21 + a23 * b31,
       a21 * b12 + a22 * b22 + a23 * b32,
       a21 * b13 + a22 * b23 + a23 * b33),
      (a31 * b11 + a32 * b21 + a33 * b31,
       a31 * b12 + a32 * b22 + a33 * b32,
       a31 * b13 + a32 * b23 + a33 * b33))"

fun det3 :: "mat3 \<Rightarrow> real" where
  "det3 ((a, b, c), (d, e, f), (g, h, i)) =
     a * (e * i - f * h) - b * (d * i - f * g) + c * (d * h - e * g)"

fun adjugate3 :: "mat3 \<Rightarrow> mat3" where
  "adjugate3 ((a, b, c), (d, e, f), (g, h, i)) =
     ((e * i - f * h, c * h - b * i, b * f - c * e),
      (f * g - d * i, a * i - c * g, c * d - a * f),
      (d * h - e * g, b * g - a * h, a * e - b * d))"

fun scale3 :: "real \<Rightarrow> mat3 \<Rightarrow> mat3" where
  "scale3 k ((a, b, c), (d, e, f), (g, h, i)) =
     ((k * a, k * b, k * c), (k * d, k * e, k * f), (k * g, k * h, k * i))"

definition linalg_inv :: "mat3 \<Rightarrow> error + mat3" where
  "linalg_inv M =
     (if det3 M = 0 then Inl LinAlgError else Inr (scale3 (1 / det3 M) (adjugate3 M)))"

subsection \<open>The calibration handler and the device calls\<close>

datatype CameraBoardSocket = RGB | LEFT | RIGHT

text \<open>What \<^verbatim>\<open>device.readCalibration()\<close> returns: one field per method the constructor calls.\<close>

record CalibrationHandler =
  getCameraIntrinsics :: "CameraBoardSocket \<Rightarrow> int \<Rightarrow> int \<Rightarrow> mat3"
  getDistortionCoefficients :: "CameraBoardSocket \<Rightarrow> real list"
  getFov :: "CameraBoardSocket \<Rightarrow> real"
  getStereoLeftRectificationRotation :: mat3
  getStereoRightRectificationRotation :: mat3
  getBaselineDistance :: real

subsection \<open>The pipeline graph\<close>

datatype ColorSensorResolution = THE_1080_P | THE_4_K
datatype MonoSensorResolution = THE_720_P
datatype PresetMode = HIGH_DENSITY
datatype MedianFilter = KERNEL_7x7

record XLinkOut =
  streamName :: string
  input_blocking :: "bool option"   \<comment> \<open>\<open>None\<close>: \<^verbatim>\<open>setBlocking\<close> was not called\<close>
  input_queueSize :: "nat option"   \<comment> \<open>\<open>None\<close>: \<^verbatim>\<open>setQueueSize\<close> was not called\<close>

record ColorCamera =
  cc_boardSocket :: CameraBoardSocket
  cc_resolution :: ColorSensorResolution
  cc_videoSize :: "int \<times> int"

record MonoCamera =
  mc_resolution :: MonoSensorResolution
  mc_boardSocket :: CameraBoardSocket

record StereoDepth =
  sd_preset :: PresetMode
  sd_medianFilter :: MedianFilter
  sd_leftRightCheck :: bool
  sd_extendedDisparity :: bool
  sd_subpixel :: bool
  speckleFilter_enable :: bool
  speckleFilter_speckleRange :: nat
  temporalFilter_enable :: bool
  spatialFilter_enable :: bool
  spatialFilter_holeFillingRadius :: nat
  spatialFilter_numIterations :: nat
  thresholdFilter_minRange :: nat
  thresholdFilter_maxRange :: nat
  decimationFilter_decimationFactor :: nat

datatype Node =
    ColorCameraNode ColorCamera
  | MonoCameraNode MonoCamera
  | StereoDepthNode StereoDepth
  | XLinkOutNode XLinkOut

text \<open>The pipeline: the nodes in the order of their creation, and the links between
  an output and an input, each named as in the source.\<close>

record Pipeline =
  p_nodes :: "Node list"
  p_links :: "(string \<times> string) list"

datatype device_call =
    Device_open                                     \<comment> \<open>\<^verbatim>\<open>dai.Device()\<close>\<close>
  | ReadCalibration
  | GetCameraIntrinsics CameraBoardSocket int int
  | GetDistortionCoefficients CameraBoardSocket
  | GetFov CameraBoardSocket
  | GetStereoLeftRectificationRotation
  | GetStereoRightRectificationRotation
  | GetBaselineDistance
  | Device_close
  | Device_open_pipeline Pipeline                   \<comment> \<open>\<^verbatim>\<open>dai.Device(self._pipeline)\<close>\<close>
  | GetOutputQueue string nat bool                  \<comment> \<open>name, maxSize, blocking\<close>

subsection \<open>The camera object\<close>

type_synonym frame = "nat list list"

text \<open>
  The attributes that \<^verbatim>\<open>__init__\<close> creates with a fixed type are fields of the record,
  named as in the source without the leading underscore. The attributes that hold a
  frame live in \<open>frame_attrs\<close>, keyed by their full Python name as in the instance
  dictionary, because the acquisition loop creates some of them by assignment: reading
  one that was never assigned raises \<^verbatim>\<open>AttributeError\<close>. The two thread objects and the
  lock are not represented.
\<close>

record OAK_Camera =
  rgb_width :: int
  rgb_height :: int
  left_width :: int
  right_width :: int
  left_height :: int
  right_height :: int
  extended_disparity :: bool
  subpixel :: bool
  lr_check :: bool
  M_rgb :: mat3
  M_left :: mat3
  M_right :: mat3
  D_left :: "real list"
  D_right :: "real list"
  rgb_fov :: real
  mono_fov :: real
  R1 :: mat3
  R2 :: mat3
  H_left :: mat3
  H_right :: mat3
  baseline :: real
  focal_length :: real
  cx :: real
  cy :: real
  Q :: "real list list"
  pipeline :: Pipeline
  nodes :: "(string \<times> Node \<times> XLinkOut option) list"
  stopped :: bool
  display_stopped :: bool
  frame_attrs :: "string \<rightharpoonup> frame option"

definition getattr :: "OAK_Camera \<Rightarrow> string \<Rightarrow> error + frame option" where
  "getattr cam name =
     (case frame_attrs cam name of None \<Rightarrow> Inl (AttributeError name) | Some v \<Rightarrow> Inr v)"

definition setattr :: "OAK_Camera \<Rightarrow> string \<Rightarrow> frame option \<Rightarrow> OAK_Camera" where
  "setattr cam name v = cam\<lparr>frame_attrs := (frame_attrs cam)(name \<mapsto> v)\<rparr>"

subsection \<open>\<^verbatim>\<open>__init__\<close>\<close>

text \<open>
  The calls on the calibration handler happen inside \<^verbatim>\<open>with dai.Device() as device\<close>,
  so the device is closed also when an inversion raises. \<^verbatim>\<open>getBaselineDistance\<close>
  returns a Python float, so \<^verbatim>\<open>-1.0 / self._baseline\<close> raises \<^verbatim>\<open>ZeroDivisionError\<close>
  for a zero baseline, while the rows of \<^verbatim>\<open>Q\<close> are evaluated.
\<close>

definition OAK_Camera_init ::
  "CalibrationHandler \<Rightarrow> int \<times> int \<Rightarrow> int \<times> int \<Rightarrow> bool \<Rightarrow> bool \<Rightarrow> bool
     \<Rightarrow> device_call list \<times> (error + OAK_Camera)" where
  "OAK_Camera_init calibData rgb_size mono_size extended_disparity' subpixel' lr_check' =
     (let rgb_w = fst rgb_size;
          rgb_h = snd rgb_size;
          left_w = fst mono_size;
          right_w = left_w;
          left_h = snd mono_size;
          right_h = left_h;
          m_rgb = getCameraIntrinsics calibData RGB right_w rgb_h;
          m_left = getCameraIntrinsics calibData LEFT left_w left_h;
          m_right = getCameraIntrinsics calibData RIGHT right_w right_h;
          r1 = getStereoLeftRectificationRotation calibData;
          r2 = getStereoRightRectificationRotation calibData;
          calls =
            [Device_open, ReadCalibration,
             GetCameraIntrinsics RGB right_w rgb_h,
             GetCameraIntrinsics LEFT left_w left_h,
             GetCameraIntrinsics RIGHT right_w right_h,
             GetDistortionCoefficients LEFT, GetDistortionCoefficients RIGHT,
             GetFov RGB, GetFov LEFT,
             GetStereoLeftRectificationRotation, GetStereoRightRectificationRotation]
      in case linalg_inv m_left of
           Inl e \<Rightarrow> (calls @ [Device_close], Inl e)
         | Inr inv_left \<Rightarrow>
        (case linalg_inv m_right of
           Inl e \<Rightarrow> (calls @ [Device_close], Inl e)
         | Inr inv_right \<Rightarrow>
        (let h_left = matmul (matmul m_right r1) inv_left;
             h_right = matmul (matmul m_right r1) inv_right;
             b = getBaselineDistance calibData;
             calls' = calls @ [GetBaselineDistance, Device_close];
             f = mat_at m_left 0 0;
             cx' = mat_at m_left 0 2;
             cy' = mat_at m_left 1 2
         in if b = 0 then (calls', Inl ZeroDivisionError)
            else (calls', Inr
              \<lparr> rgb_width = rgb_w, rgb_height = rgb_h,
                left_width = left_w, right_width = right_w,
                left_height = left_h, right_height = right_h,
                extended_disparity = extended_disparity',
                subpixel = subpixel', lr_check = lr_check',
                M_rgb = m_rgb, M_left = m_left, M_right = m_right,
                D_left = getDistortionCoefficients calibData LEFT,
                D_right = getDistortionCoefficients calibData RIGHT,
                rgb_fov = getFov calibData RGB,
                mono_fov = getFov calibData LEFT,
                R1 = r1, R2 = r2, H_left = h_left, H_right = h_right,
                baseline = b, focal_length = f, cx = cx', cy = cy',
                Q = [[1, 0, 0, - cx'],
                     [0, 1, 0, - cy'],
                     [0, 0, 0, f],
                     [0, 0, - 1 / b, 0]],
                pipeline = \<lparr> p_nodes = [], p_links = [] \<rparr>,
                nodes = [],
                stopped = False,
                display_stopped = False,
                frame_attrs =
                  [''_rgb_frame'' \<mapsto> None, ''_depth_frame'' \<mapsto> None,
                   ''_left_frame'' \<mapsto> None, ''_right_frame'' \<mapsto> None,
                   ''_rectified_left_frame'' \<mapsto> None,
                   ''_rectified_right_frame'' \<mapsto> None] \<rparr>))))"

subsection \<open>The public accessors\<close>

definition rgb_frame :: "OAK_Camera \<Rightarrow> error + frame option" where
  "rgb_frame cam = getattr cam ''_rgb_frame''"

definition disparity :: "OAK_Camera \<Rightarrow> error + frame option" where
  "disparity cam = getattr cam ''_depth_frame''"

definition left_frame :: "OAK_Camera \<Rightarrow> error + frame option" where
  "left_frame cam = getattr cam ''_left_frame''"

definition right_frame :: "OAK_Camera \<Rightarrow> error + frame option" where
  "right_frame cam = getattr cam ''_right_frame''"

definition rectified_left_frame :: "OAK_Camera \<Rightarrow> error + frame option" where
  "rectified_left_frame cam = getattr cam ''_rectified_left_frame''"

definition rectified_right_frame :: "OAK_Camera \<Rightarrow> error + frame option" where
  "rectified_right_frame cam = getattr cam ''_rectified_right_frame''"

subsection \<open>Building the pipeline\<close>

text \<open>\<^verbatim>\<open>d[k] = v\<close> on an insertion-ordered dictionary.\<close>

fun dict_set :: "('k \<times> 'v) list \<Rightarrow> 'k \<Rightarrow> 'v \<Rightarrow> ('k \<times> 'v) list" where
  "dict_set [] k v = [(k, v)]"
| "dict_set ((k', v') # d) k v =
     (if k' = k then (k, v) # d else (k', v') # dict_set d k v)"

text \<open>
  \<^verbatim>\<open>_create_cam_rgb\<close>: the sensor preset is chosen from the configured height and any
  other height raises. The two nodes are created before the test, but a raise leaves
  no usable result, so the error carries no state.
\<close>

definition create_cam_rgb :: "OAK_Camera \<Rightarrow> error + OAK_Camera" where
  "create_cam_rgb cam =
     (case (if rgb_height cam = 1080 then Inr THE_1080_P
            else if rgb_height cam = 2160 then Inr THE_4_K
            else Inl (NotImplementedError (rgb_width cam) (rgb_height cam))) of
        Inl e \<Rightarrow> Inl e
      | Inr resolution \<Rightarrow>
          (let cam_rgb = \<lparr> cc_boardSocket = RGB, cc_resolution = resolution,
                           cc_videoSize = (rgb_width cam, rgb_height cam) \<rparr>;
               xout_video = \<lparr> streamName = ''color_camera'',
                              input_blocking = Some False, input_queueSize = Some 1 \<rparr>
           in Inr (cam\<lparr> pipeline :=
                          \<lparr> p_nodes = p_nodes (pipeline cam)
                               @ [ColorCameraNode cam_rgb, XLinkOutNode xout_video],
                            p_links = p_links (pipeline cam)
                               @ [(''cam_rgb.video'', ''xout_video.input'')] \<rparr>,
                        nodes := dict_set (nodes cam) ''color_camera''
                                   (ColorCameraNode cam_rgb, Some xout_video) \<rparr>)))"

text \<open>\<^verbatim>\<open>_create_stereo\<close>: two mono cameras, the stereo node and its three outputs.
  The mono resolution is fixed; the mono size given to the constructor is not used here.\<close>

definition create_stereo :: "OAK_Camera \<Rightarrow> OAK_Camera" where
  "create_stereo cam =
     (let mono_left = \<lparr> mc_resolution = THE_720_P, mc_boardSocket = LEFT \<rparr>;
          mono_right = \<lparr> mc_resolution = THE_720_P, mc_boardSocket = RIGHT \<rparr>;
          depth = \<lparr> sd_preset = HIGH_DENSITY, sd_medianFilter = KERNEL_7x7,
                    sd_leftRightCheck = lr_check cam,
                    sd_extendedDisparity = extended_disparity cam,
                    sd_subpixel = subpixel cam,
                    speckleFilter_enable = False,
                    speckleFilter_speckleRange = 50,
                    temporalFilter_enable = True,
                    spatialFilter_enable = True,
                    spatialFilter_holeFillingRadius = 2,
                    spatialFilter_numIterations = 1,
                    thresholdFilter_minRange = 400,
                    thresholdFilter_maxRange = 15000,
                    decimationFilter_decimationFactor = 1 \<rparr>;
          xout_depth = \<lparr> streamName = ''disparity'',
                         input_blocking = None, input_queueSize = None \<rparr>;
          xout_rect_left = \<lparr> streamName = ''rectified_left'',
                             input_blocking = None, input_queueSize = None \<rparr>;
          xout_rect_right = \<lparr> streamName = ''rectified_right'',
                              input_blocking = None, input_queueSize = None \<rparr>;
          n1 = dict_set (nodes cam) ''stereo'' (StereoDepthNode depth, Some xout_depth);
          n2 = dict_set n1 ''mono_left'' (MonoCameraNode mono_left, None);
          n3 = dict_set n2 ''mono_right'' (MonoCameraNode mono_right, None);
          n4 = dict_set n3 ''rectified_left'' (StereoDepthNode depth, Some xout_rect_left);
          n5 = dict_set n4 ''rectified_right'' (StereoDepthNode depth, Some xout_rect_right)
      in cam\<lparr> pipeline :=
                 \<lparr> p_nodes = p_nodes (pipeline cam)
                      @ [MonoCameraNode mono_left, MonoCameraNode mono_right,
                         StereoDepthNode depth, XLinkOutNode xout_depth,
                         XLinkOutNode xout_rect_left, XLinkOutNode xout_rect_right],
                   p_links = p_links (pipeline cam)
                      @ [(''mono_left.out'', ''depth.left''),
                         (''mono_right.out'', ''depth.right''),
                         (''depth.disparity'', ''xout_depth.input''),
                         (''depth.rectifiedLeft'', ''xout_rect_left.input''),
                         (''depth.rectifiedRight'', ''xout_rect_right.input'')] \<rparr>,
               nodes := n5 \<rparr>)"

subsection \<open>The acquisition loop\<close>

record OutputQueue =
  q_name :: string
  q_maxSize :: nat
  q_blocking :: bool

text \<open>
  The queues are requested for every key of \<^verbatim>\<open>self._nodes\<close>, under the key as stream
  name. The values of \<^verbatim>\<open>self._nodes\<close> are tuples, so the test
  \<^verbatim>\<open>self._nodes[key] is not None\<close> holds for each key.
\<close>

definition get_output_queues ::
  "(string \<times> Node \<times> XLinkOut option) list \<Rightarrow> (string \<times> OutputQueue option) list" where
  "get_output_queues ns =
     fold (\<lambda>key queues.
             dict_set queues key (Some \<lparr> q_name = key, q_maxSize = 1, q_blocking = False \<rparr>))
          (map fst ns) []"

text \<open>
  The queue object belongs to the device library. \<^verbatim>\<open>queue.get()\<close> is its blocking read:
  it returns once the queue holds a message and waits until then. What the queues
  deliver in one iteration is an input, a function from the queue's name to the frame
  of the message that \<^verbatim>\<open>get()\<close> returns (\<^verbatim>\<open>data.getCvFrame()\<close>), or \<open>None\<close> when no
  message arrives on that queue, so that \<^verbatim>\<open>get()\<close> does not return. The device is taken
  to hand out a queue for every name it is asked for.
\<close>

text \<open>The chain of \<^verbatim>\<open>if name == ...\<close> on the message \<^verbatim>\<open>data\<close> that \<^verbatim>\<open>get()\<close> returned;
  a name without a branch stores nothing.\<close>

definition handle_queue :: "string \<Rightarrow> frame \<Rightarrow> OAK_Camera \<Rightarrow> OAK_Camera" where
  "handle_queue name data cam =
     (if name = ''color_camera'' then setattr cam ''_color_frame'' (Some data)
      else if name = ''disparity'' then setattr cam ''_disparity'' (Some data)
      else if name = ''rectified_left'' then setattr cam ''_left_rect_frame'' (Some data)
      else if name = ''rectified_right'' then setattr cam ''_right_rect_frame'' (Some data)
      else if name = ''mono_left'' then setattr cam ''_left_frame'' (Some data)
      else if name = ''mono_right'' then setattr cam ''_right_frame'' (Some data)
      else cam)"

text \<open>
  One iteration: the body of \<^verbatim>\<open>with self._data_lock\<close>, over \<^verbatim>\<open>queues.items()\<close>. The
  first component lists the queues on which \<^verbatim>\<open>get()\<close> was called, in order. The second
  is the object after the iteration, or \<open>None\<close> when the iteration does not return
  because a \<^verbatim>\<open>get()\<close> waits for a message that does not arrive.
\<close>

fun poll_queues ::
  "(string \<times> OutputQueue option) list \<Rightarrow> (string \<Rightarrow> frame option) \<Rightarrow> OAK_Camera
     \<Rightarrow> string list \<times> OAK_Camera option" where
  "poll_queues [] get cam = ([], Some cam)"
| "poll_queues ((name, None) # qs) get cam = poll_queues qs get cam"
| "poll_queues ((name, Some queue) # qs) get cam =
     (case get (q_name queue) of
        None \<Rightarrow> ([q_name queue], None)
      | Some data \<Rightarrow>
          (q_name queue # fst (poll_queues qs get (handle_queue name data cam)),
           snd (poll_queues qs get (handle_queue name data cam))))"

text \<open>
  \<^verbatim>\<open>while not self._stopped\<close>: the flag is set by \<^verbatim>\<open>stop()\<close> from another thread. The
  list holds one entry for each iteration that runs before the loop reads the flag as
  set: what the queues deliver in that iteration. The result is \<open>None\<close> when an
  iteration does not return.
\<close>

fun acquisition_loop ::
  "(string \<times> OutputQueue option) list \<Rightarrow> (string \<Rightarrow> frame option) list \<Rightarrow> OAK_Camera
     \<Rightarrow> OAK_Camera option" where
  "acquisition_loop qs [] cam = Some cam"
| "acquisition_loop qs (get # rounds) cam =
     (if stopped cam then Some cam
      else case snd (poll_queues qs get cam) of
             None \<Rightarrow> None
           | Some cam' \<Rightarrow> acquisition_loop qs rounds cam')"

text \<open>
  \<^verbatim>\<open>_target\<close>: build the pipeline, open the device with it, request the queues, loop.
  The result is the calls made on the device and what the thread does: \<open>Some (Inl e)\<close>
  when it raises, \<open>Some (Inr cam)\<close> when the loop ends and the device is closed,
  \<open>None\<close> when the loop waits in a \<^verbatim>\<open>get()\<close> for ever.
\<close>

definition target ::
  "(string \<Rightarrow> frame option) list \<Rightarrow> OAK_Camera
     \<Rightarrow> device_call list \<times> (error + OAK_Camera) option" where
  "target rounds cam =
     (case create_cam_rgb cam of
        Inl e \<Rightarrow> ([], Some (Inl e))
      | Inr cam1 \<Rightarrow>
          (let cam2 = create_stereo cam1;
               queues = get_output_queues (nodes cam2);
               calls = Device_open_pipeline (pipeline cam2)
                         # map (\<lambda>key. GetOutputQueue key 1 False) (map fst (nodes cam2))
           in case acquisition_loop queues rounds cam2 of
                None \<Rightarrow> (calls, None)
              | Some cam' \<Rightarrow> (calls @ [Device_close], Some (Inr cam'))))"

definition stop :: "OAK_Camera \<Rightarrow> OAK_Camera" where
  "stop cam = cam\<lparr> stopped := True \<rparr>"

subsection \<open>\<^verbatim>\<open>compute_3d\<close>\<close>

text \<open>
  The result is the Python triple; \<^verbatim>\<open>(None, None, None)\<close> is the "not ready" value.
  \<^verbatim>\<open>cv2.reprojectImageTo3D\<close> is the parameter \<open>reprojectImageTo3D\<close>.
\<close>

definition compute_3d ::
  "(frame \<Rightarrow> real list list \<Rightarrow> 'cloud) \<Rightarrow> OAK_Camera
     \<Rightarrow> error + ('cloud option \<times> frame option \<times> frame option)" where
  "compute_3d reprojectImageTo3D cam =
     (case getattr cam ''_disparity'' of
        Inl e \<Rightarrow> Inl e
      | Inr disparity' \<Rightarrow>
     (case getattr cam ''_rectified_left_frame'' of
        Inl e \<Rightarrow> Inl e
      | Inr left_frame' \<Rightarrow>
          (if disparity' = None \<or> left_frame' = None then Inr (None, None, None)
           else Inr (Some (reprojectImageTo3D (the disparity') (Q cam)),
                     disparity', left_frame'))))"

subsection \<open>A concrete calibration\<close>

text \<open>
  A calibration whose intrinsics depend on the socket and on the size asked for: at the
  mono size 1280 by 720 the left sensor has the values of the spec's example (focal
  length 860, principal point (640, 360)), the right sensor half that focal length.
  The baseline is 7.5 and the two rectification rotations differ.
\<close>

definition example_calib :: CalibrationHandler where
  "example_calib =
     \<lparr> getCameraIntrinsics =
         (\<lambda>socket w h.
            (let f = (if socket = RIGHT then 43 * real_of_int w / 128
                      else 43 * real_of_int w / 64)
             in ((f, 0, real_of_int w / 2), (0, f, real_of_int h / 2), (0, 0, 1)))),
       getDistortionCoefficients = (\<lambda>socket. [0, 0, 0, 0, 0]),
       getFov = (\<lambda>socket. 70),
       getStereoLeftRectificationRotation = identity3,
       getStereoRightRectificationRotation = ((0, 1, 0), (- 1, 0, 0), (0, 0, 1)),
       getBaselineDistance = 15 / 2 \<rparr>"

text \<open>The object that the constructor builds from it with the default sizes.\<close>

definition example_cam :: OAK_Camera where
  "example_cam =
     \<lparr> rgb_width = 1920, rgb_height = 1080,
       left_width = 1280, right_width = 1280,
       left_height = 720, right_height = 720,
       extended_disparity = True, subpixel = True, lr_check = True,
       M_rgb = ((860, 0, 640), (0, 860, 540), (0, 0, 1)),
       M_left = ((860, 0, 640), (0, 860, 360), (0, 0, 1)),
       M_right = ((430, 0, 640), (0, 430, 360), (0, 0, 1)),
       D_left = [0, 0, 0, 0, 0], D_right = [0, 0, 0, 0, 0],
       rgb_fov = 70, mono_fov = 70,
       R1 = identity3, R2 = ((0, 1, 0), (- 1, 0, 0), (0, 0, 1)),
       H_left = ((1 / 2, 0, 320), (0, 1 / 2, 180), (0, 0, 1)),
       H_right = identity3,
       baseline = 15 / 2, focal_length = 860, cx = 640, cy = 360,
       Q = [[1, 0, 0, - 640], [0, 1, 0, - 360], [0, 0, 0, 860], [0, 0, - 2 / 15, 0]],
       pipeline = \<lparr> p_nodes = [], p_links = [] \<rparr>,
       nodes = [],
       stopped = False,
       display_stopped = False,
       frame_attrs =
         [''_rgb_frame'' \<mapsto> None, ''_depth_frame'' \<mapsto> None,
          ''_left_frame'' \<mapsto> None, ''_right_frame'' \<mapsto> None,
          ''_rectified_left_frame'' \<mapsto> None,
          ''_rectified_right_frame'' \<mapsto> None] \<rparr>"

text \<open>The same object once \<^verbatim>\<open>_target\<close> has built the pipeline.\<close>

definition example_built :: OAK_Camera where
  "example_built =
     create_stereo (case create_cam_rgb example_cam of Inr cam \<Rightarrow> cam | Inl e \<Rightarrow> example_cam)"

text \<open>One round in which every queue delivers a frame of its own.\<close>

definition example_get :: "string \<Rightarrow> frame option" where
  "example_get name =
     (if name = ''color_camera'' then Some [[1]]
      else if name = ''stereo'' then Some [[2]]
      else if name = ''mono_left'' then Some [[3]]
      else if name = ''mono_right'' then Some [[4]]
      else if name = ''rectified_left'' then Some [[5]]
      else if name = ''rectified_right'' then Some [[6]]
      else None)"

definition is_intrinsics_call :: "device_call \<Rightarrow> bool" where
  "is_intrinsics_call c = (case c of GetCameraIntrinsics socket w h \<Rightarrow> True | _ \<Rightarrow> False)"

text \<open>The queues that \<^verbatim>\<open>_target\<close> requests once the pipeline of a new object is built
  (lemma \<open>built_queues\<close> below).\<close>

definition target_queues :: "(string \<times> OutputQueue option) list" where
  "target_queues =
     [(''color_camera'', Some \<lparr> q_name = ''color_camera'', q_maxSize = 1, q_blocking = False \<rparr>),
      (''stereo'', Some \<lparr> q_name = ''stereo'', q_maxSize = 1, q_blocking = False \<rparr>),
      (''mono_left'', Some \<lparr> q_name = ''mono_left'', q_maxSize = 1, q_blocking = False \<rparr>),
      (''mono_right'', Some \<lparr> q_name = ''mono_right'', q_maxSize = 1, q_blocking = False \<rparr>),
      (''rectified_left'',
         Some \<lparr> q_name = ''rectified_left'', q_maxSize = 1, q_blocking = False \<rparr>),
      (''rectified_right'',
         Some \<lparr> q_name = ''rectified_right'', q_maxSize = 1, q_blocking = False \<rparr>)]"

text \<open>The attributes behind four of the accessors, which no branch of the loop assigns.\<close>

definition never_written :: "string \<Rightarrow> bool" where
  "never_written a =
     (a = ''_rgb_frame'' \<or> a = ''_depth_frame'' \<or> a = ''_rectified_left_frame''
      \<or> a = ''_rectified_right_frame'')"

section \<open>Properties\<close>

subsection \<open>The inverse\<close>

lemma matmul_scale3_right: "matmul M (scale3 k A) = scale3 k (matmul M A)"
  by (cases M rule: rows_of.cases, cases A rule: rows_of.cases) (simp add: algebra_simps)

lemma matmul_scale3_left: "matmul (scale3 k A) M = scale3 k (matmul A M)"
  by (cases M rule: rows_of.cases, cases A rule: rows_of.cases) (simp add: algebra_simps)

lemma matmul_adjugate3_right: "matmul M (adjugate3 M) = scale3 (det3 M) identity3"
  by (cases M rule: rows_of.cases) (simp add: identity3_def algebra_simps)

lemma matmul_adjugate3_left: "matmul (adjugate3 M) M = scale3 (det3 M) identity3"
  by (cases M rule: rows_of.cases) (simp add: identity3_def algebra_simps)

lemma scale3_scale3_identity3: "k * d = 1 \<Longrightarrow> scale3 k (scale3 d identity3) = identity3"
  by (simp add: identity3_def)

text \<open>What \<open>linalg_inv\<close> returns is the inverse on both sides.\<close>

lemma linalg_inv_correct:
  assumes "linalg_inv M = Inr Mi"
  shows "matmul M Mi = identity3 \<and> matmul Mi M = identity3"
proof -
  from assms have nz: "det3 M \<noteq> 0" and Mi: "Mi = scale3 (1 / det3 M) (adjugate3 M)"
    by (auto simp: linalg_inv_def split: if_splits)
  from nz have k: "1 / det3 M * det3 M = 1" by simp
  show ?thesis
    unfolding Mi matmul_scale3_right matmul_scale3_left
      matmul_adjugate3_right matmul_adjugate3_left
    using scale3_scale3_identity3 [OF k] by simp
qed

subsection \<open>The constructor on the example\<close>

lemma example_init:
  "snd (OAK_Camera_init example_calib (1920, 1080) (1280, 720) True True True) = Inr example_cam"
  by (simp add: OAK_Camera_init_def example_calib_def example_cam_def linalg_inv_def
      Let_def mat_at_def identity3_def)

lemma example_target: "\<exists>cam'. snd (target [example_get] example_cam) = Some (Inr cam')"
  by (simp add: target_def create_cam_rgb_def create_stereo_def example_cam_def Let_def
      get_output_queues_def example_get_def)

subsection \<open>Nothing after the constructor writes \<open>Q\<close>\<close>

lemma Q_setattr: "Q (setattr cam name v) = Q cam"
  by (simp add: setattr_def)

lemma Q_handle_queue: "Q (handle_queue name data cam) = Q cam"
  by (simp add: handle_queue_def Q_setattr)

lemma Q_poll_queues: "snd (poll_queues qs get cam) = Some cam' \<Longrightarrow> Q cam' = Q cam"
proof (induction qs get cam rule: poll_queues.induct)
  case (1 get cam)
  then show ?case by simp
next
  case (2 name qs get cam)
  then show ?case by simp
next
  case (3 name queue qs get cam)
  from "3.prems" obtain data where g: "get (q_name queue) = Some data"
    and p: "snd (poll_queues qs get (handle_queue name data cam)) = Some cam'"
    by (auto split: option.splits)
  from "3.IH" [OF g p] show ?case by (simp add: Q_handle_queue)
qed

lemma Q_acquisition_loop: "acquisition_loop qs rounds cam = Some cam' \<Longrightarrow> Q cam' = Q cam"
proof (induction rounds arbitrary: cam)
  case Nil
  then show ?case by simp
next
  case (Cons get rounds)
  show ?case
  proof (cases "stopped cam")
    case True
    with Cons.prems show ?thesis by simp
  next
    case False
    with Cons.prems obtain cam1 where p: "snd (poll_queues qs get cam) = Some cam1"
      and l: "acquisition_loop qs rounds cam1 = Some cam'"
      by (auto split: option.splits)
    from Cons.IH [OF l] Q_poll_queues [OF p] show ?thesis by simp
  qed
qed

lemma Q_create_cam_rgb: "create_cam_rgb cam = Inr cam' \<Longrightarrow> Q cam' = Q cam"
  by (auto simp: create_cam_rgb_def Let_def split: if_splits)

lemma Q_create_stereo: "Q (create_stereo cam) = Q cam"
  by (simp add: create_stereo_def Let_def)

lemma Q_target:
  assumes "snd (target rounds cam) = Some (Inr cam')"
  shows "Q cam' = Q cam"
proof -
  from assms obtain cam1 where c: "create_cam_rgb cam = Inr cam1"
    and l: "acquisition_loop (get_output_queues (nodes (create_stereo cam1))) rounds
              (create_stereo cam1) = Some cam'"
    by (auto simp: target_def Let_def split: sum.splits option.splits)
  from Q_acquisition_loop [OF l] Q_create_cam_rgb [OF c] show ?thesis
    by (simp add: Q_create_stereo)
qed

subsection \<open>When the constructor returns\<close>

lemma init_success:
  assumes "getBaselineDistance calibData \<noteq> 0"
    and "det3 (getCameraIntrinsics calibData LEFT (fst mono_size) (snd mono_size)) \<noteq> 0"
    and "det3 (getCameraIntrinsics calibData RIGHT (fst mono_size) (snd mono_size)) \<noteq> 0"
  shows "\<exists>cam. snd (OAK_Camera_init calibData rgb_size mono_size ed sp lr) = Inr cam"
  using assms by (simp add: OAK_Camera_init_def Let_def linalg_inv_def)

lemma init_Q:
  assumes "snd (OAK_Camera_init calibData rgb_size mono_size ed sp lr) = Inr cam"
  shows "Q cam = [[1, 0, 0, - mat_at (M_left cam) 0 2],
                  [0, 1, 0, - mat_at (M_left cam) 1 2],
                  [0, 0, 0, mat_at (M_left cam) 0 0],
                  [0, 0, - 1 / getBaselineDistance calibData, 0]]"
    and "M_left cam = getCameraIntrinsics calibData LEFT (fst mono_size) (snd mono_size)"
    and "focal_length cam = mat_at (M_left cam) 0 0"
    and "baseline cam = getBaselineDistance calibData"
  using assms
  by (auto simp: OAK_Camera_init_def Let_def split: sum.splits if_splits)

subsection \<open>The reprojection matrix\<close>

text \<open>
  C4. For every construction with a nonzero baseline (and invertible left and right
  intrinsics, or the inversions raise first) the constructor returns an object whose
  \<open>Q\<close> is \<open>[[1,0,0,-cx],[0,1,0,-cy],[0,0,0,f],[0,0,-1/baseline,0]]\<close> with
  \<open>f = M_left[0][0]\<close>, \<open>cx = M_left[0][2]\<close>, \<open>cy = M_left[1][2]\<close>; so
  \<open>Q[2][3] = f\<close> and \<open>Q[3][2] = -1/baseline\<close>. Neither the acquisition thread nor
  \<open>stop\<close> changes \<open>Q\<close> afterwards.
\<close>

theorem reprojection_matrix_Q:
  assumes "getBaselineDistance calibData \<noteq> 0"
    and "det3 (getCameraIntrinsics calibData LEFT (fst mono_size) (snd mono_size)) \<noteq> 0"
    and "det3 (getCameraIntrinsics calibData RIGHT (fst mono_size) (snd mono_size)) \<noteq> 0"
  shows "\<exists>cam. snd (OAK_Camera_init calibData rgb_size mono_size ed sp lr) = Inr cam
           \<and> M_left cam = getCameraIntrinsics calibData LEFT (fst mono_size) (snd mono_size)
           \<and> Q cam = [[1, 0, 0, - mat_at (M_left cam) 0 2],
                      [0, 1, 0, - mat_at (M_left cam) 1 2],
                      [0, 0, 0, mat_at (M_left cam) 0 0],
                      [0, 0, - 1 / getBaselineDistance calibData, 0]]
           \<and> Q cam ! 2 ! 3 = mat_at (M_left cam) 0 0
           \<and> Q cam ! 3 ! 2 = - 1 / getBaselineDistance calibData
           \<and> focal_length cam = mat_at (M_left cam) 0 0
           \<and> baseline cam = getBaselineDistance calibData
           \<and> (\<forall>rounds cam'. snd (target rounds cam) = Some (Inr cam') \<longrightarrow> Q cam' = Q cam)
           \<and> Q (stop cam) = Q cam"
proof -
  from init_success [OF assms] obtain cam
    where ok: "snd (OAK_Camera_init calibData rgb_size mono_size ed sp lr) = Inr cam"
    by blast
  note q = init_Q [OF ok]
  have "Q cam ! 2 ! 3 = mat_at (M_left cam) 0 0"
    and "Q cam ! 3 ! 2 = - 1 / getBaselineDistance calibData"
    by (simp_all add: q(1) numeral_2_eq_2 numeral_3_eq_3)
  moreover have "\<forall>rounds cam'. snd (target rounds cam) = Some (Inr cam') \<longrightarrow> Q cam' = Q cam"
    using Q_target by blast
  moreover have "Q (stop cam) = Q cam"
    by (simp add: stop_def)
  ultimately show ?thesis
    using ok q by blast
qed

theorem reprojection_matrix_Q_witness:
  "\<exists>cam cam'.
      snd (OAK_Camera_init example_calib (1920, 1080) (1280, 720) True True True) = Inr cam
      \<and> Q cam = [[1, 0, 0, - 640], [0, 1, 0, - 360], [0, 0, 0, 860], [0, 0, - 2 / 15, 0]]
      \<and> snd (target [example_get] cam) = Some (Inr cam')
      \<and> Q cam' = [[1, 0, 0, - 640], [0, 1, 0, - 360], [0, 0, 0, 860], [0, 0, - 2 / 15, 0]]"
proof -
  have b: "getBaselineDistance example_calib \<noteq> 0"
    by (simp add: example_calib_def)
  have l: "det3 (getCameraIntrinsics example_calib LEFT
                   (fst (1280 :: int, 720 :: int)) (snd (1280 :: int, 720 :: int))) \<noteq> 0"
    by (simp add: example_calib_def Let_def)
  have r: "det3 (getCameraIntrinsics example_calib RIGHT
                   (fst (1280 :: int, 720 :: int)) (snd (1280 :: int, 720 :: int))) \<noteq> 0"
    by (simp add: example_calib_def Let_def)
  from reprojection_matrix_Q [OF b l r, of "(1920, 1080)" True True True]
  obtain cam
    where ok: "snd (OAK_Camera_init example_calib (1920, 1080) (1280, 720) True True True)
                 = Inr cam"
      and q: "Q cam = [[1, 0, 0, - mat_at (M_left cam) 0 2],
                       [0, 1, 0, - mat_at (M_left cam) 1 2],
                       [0, 0, 0, mat_at (M_left cam) 0 0],
                       [0, 0, - 1 / getBaselineDistance example_calib, 0]]"
      and m: "M_left cam = getCameraIntrinsics example_calib LEFT
                             (fst (1280 :: int, 720 :: int)) (snd (1280 :: int, 720 :: int))"
      and t: "\<forall>rounds cam'. snd (target rounds cam) = Some (Inr cam') \<longrightarrow> Q cam' = Q cam"
    by blast
  from ok example_init have c: "cam = example_cam" by simp
  from example_target c obtain cam' where t': "snd (target [example_get] cam) = Some (Inr cam')"
    by blast
  have q': "Q cam = [[1, 0, 0, - 640], [0, 1, 0, - 360], [0, 0, 0, 860], [0, 0, - 2 / 15, 0]]"
    unfolding q m by (simp add: example_calib_def Let_def mat_at_def)
  from t t' have "Q cam' = Q cam" by blast
  with ok q' t' show ?thesis by metis
qed

subsection \<open>The rectification homographies\<close>

text \<open>
  C5. When the constructor returns, \<open>H_left = M_right \<cdot> R_left \<cdot> inverse(M_left)\<close> and
  \<open>H_right = M_right \<cdot> R_left \<cdot> inverse(M_right)\<close>, with the left rectification
  rotation in both; the right rotation is stored in \<open>R2\<close> and changes nothing else
  of the object.
\<close>

theorem rectification_homographies:
  assumes "snd (OAK_Camera_init calibData rgb_size mono_size ed sp lr) = Inr cam"
  shows "\<exists>inv_left inv_right.
           matmul (M_left cam) inv_left = identity3 \<and> matmul inv_left (M_left cam) = identity3
         \<and> matmul (M_right cam) inv_right = identity3 \<and> matmul inv_right (M_right cam) = identity3
         \<and> H_left cam =
             matmul (matmul (M_right cam) (getStereoLeftRectificationRotation calibData)) inv_left
         \<and> H_right cam =
             matmul (matmul (M_right cam) (getStereoLeftRectificationRotation calibData)) inv_right
         \<and> R1 cam = getStereoLeftRectificationRotation calibData
         \<and> R2 cam = getStereoRightRectificationRotation calibData
         \<and> (\<forall>r2. snd (OAK_Camera_init (calibData\<lparr>getStereoRightRectificationRotation := r2\<rparr>)
                        rgb_size mono_size ed sp lr) = Inr (cam\<lparr>R2 := r2\<rparr>))"
proof -
  let ?ml = "getCameraIntrinsics calibData LEFT (fst mono_size) (snd mono_size)"
  let ?mr = "getCameraIntrinsics calibData RIGHT (fst mono_size) (snd mono_size)"
  from assms obtain il ir where il: "linalg_inv ?ml = Inr il" and ir: "linalg_inv ?mr = Inr ir"
    by (auto simp: OAK_Camera_init_def Let_def split: sum.splits)
  from assms il ir have b: "getBaselineDistance calibData \<noteq> 0"
    by (auto simp: OAK_Camera_init_def Let_def split: if_splits)
  from assms il ir b have ml: "M_left cam = ?ml" and mr: "M_right cam = ?mr"
    and hl: "H_left cam = matmul (matmul ?mr (getStereoLeftRectificationRotation calibData)) il"
    and hr: "H_right cam = matmul (matmul ?mr (getStereoLeftRectificationRotation calibData)) ir"
    and r1: "R1 cam = getStereoLeftRectificationRotation calibData"
    and r2: "R2 cam = getStereoRightRectificationRotation calibData"
    by (auto simp: OAK_Camera_init_def Let_def)
  have indep: "\<forall>r2. snd (OAK_Camera_init (calibData\<lparr>getStereoRightRectificationRotation := r2\<rparr>)
                        rgb_size mono_size ed sp lr) = Inr (cam\<lparr>R2 := r2\<rparr>)"
    using assms il ir b by (auto simp: OAK_Camera_init_def Let_def)
  from linalg_inv_correct [OF il] linalg_inv_correct [OF ir] ml mr hl hr r1 r2 indep
  show ?thesis by metis
qed

theorem rectification_homographies_witness:
  "\<exists>inv_left inv_right.
      matmul ((860, 0, 640), (0, 860, 360), (0, 0, 1)) inv_left = identity3
    \<and> matmul ((430, 0, 640), (0, 430, 360), (0, 0, 1)) inv_right = identity3
    \<and> H_left example_cam = matmul (matmul ((430, 0, 640), (0, 430, 360), (0, 0, 1)) identity3) inv_left
    \<and> H_right example_cam = matmul (matmul ((430, 0, 640), (0, 430, 360), (0, 0, 1)) identity3) inv_right
    \<and> R2 example_cam = ((0, 1, 0), (- 1, 0, 0), (0, 0, 1))"
proof -
  have m: "M_left example_cam = ((860, 0, 640), (0, 860, 360), (0, 0, 1))"
    "M_right example_cam = ((430, 0, 640), (0, 430, 360), (0, 0, 1))"
    "getStereoLeftRectificationRotation example_calib = identity3"
    "getStereoRightRectificationRotation example_calib = ((0, 1, 0), (- 1, 0, 0), (0, 0, 1))"
    by (simp_all add: example_cam_def example_calib_def)
  from rectification_homographies [OF example_init] show ?thesis
    unfolding m by blast
qed

subsection \<open>The sizes of the intrinsics queries\<close>

text \<open>
  C10. With \<open>rgbSize = (wr, hr)\<close> and \<open>monoSize = (wm, hm)\<close> the constructor asks for
  the RGB intrinsics at \<open>(wm, hr)\<close>, the mono width with the RGB height, and for the left
  and right intrinsics at \<open>(wm, hm)\<close>; these are the only intrinsics queries, also when
  the constructor raises later, and the values returned are what it stores.
\<close>

theorem intrinsics_query_sizes:
  "filter is_intrinsics_call (fst (OAK_Camera_init calibData (wr, hr) (wm, hm) ed sp lr)) =
     [GetCameraIntrinsics RGB wm hr, GetCameraIntrinsics LEFT wm hm,
      GetCameraIntrinsics RIGHT wm hm]
   \<and> (snd (OAK_Camera_init calibData (wr, hr) (wm, hm) ed sp lr) = Inr cam \<longrightarrow>
        M_rgb cam = getCameraIntrinsics calibData RGB wm hr
      \<and> M_left cam = getCameraIntrinsics calibData LEFT wm hm
      \<and> M_right cam = getCameraIntrinsics calibData RIGHT wm hm)"
  by (auto simp: OAK_Camera_init_def Let_def is_intrinsics_call_def split: sum.splits if_splits)

theorem intrinsics_query_sizes_witness:
  "snd (OAK_Camera_init example_calib (1920, 1080) (1280, 720) True True True) = Inr example_cam
   \<and> M_rgb example_cam = getCameraIntrinsics example_calib RGB 1280 1080
   \<and> M_rgb example_cam \<noteq> getCameraIntrinsics example_calib RGB 1920 1080
   \<and> M_left example_cam = getCameraIntrinsics example_calib LEFT 1280 720
   \<and> M_right example_cam = getCameraIntrinsics example_calib RIGHT 1280 720
   \<and> filter is_intrinsics_call
        (fst (OAK_Camera_init example_calib (1920, 1080) (1280, 720) True True True)) =
      [GetCameraIntrinsics RGB 1280 1080, GetCameraIntrinsics LEFT 1280 720,
       GetCameraIntrinsics RIGHT 1280 720]"
proof -
  have d: "M_rgb example_cam \<noteq> getCameraIntrinsics example_calib RGB 1920 1080"
    by (simp add: example_cam_def example_calib_def Let_def)
  from intrinsics_query_sizes [of example_calib 1920 1080 1280 720 True True True example_cam]
    example_init d
  show ?thesis by simp
qed

subsection \<open>The supported colour resolutions\<close>

lemma create_cam_rgb_height:
  "(rgb_height cam = 1080 \<or> rgb_height cam = 2160 \<longrightarrow>
      (\<exists>cam1. create_cam_rgb cam = Inr cam1
         \<and> nodes cam1 = dict_set (nodes cam) ''color_camera''
              (ColorCameraNode
                 \<lparr> cc_boardSocket = RGB,
                   cc_resolution = (if rgb_height cam = 1080 then THE_1080_P else THE_4_K),
                   cc_videoSize = (rgb_width cam, rgb_height cam) \<rparr>,
               Some \<lparr> streamName = ''color_camera'',
                       input_blocking = Some False, input_queueSize = Some 1 \<rparr>)
         \<and> hd (fst (target rounds cam)) = Device_open_pipeline (pipeline (create_stereo cam1))))
   \<and> (rgb_height cam \<noteq> 1080 \<and> rgb_height cam \<noteq> 2160 \<longrightarrow>
        target rounds cam = ([], Some (Inl (NotImplementedError (rgb_width cam) (rgb_height cam)))))"
  by (auto simp: create_cam_rgb_def target_def Let_def split: option.splits)

text \<open>The constructor does not look at the height: when it returns it has made all its
  calls on the device, and the object holds the sizes as given and no node.\<close>

lemma init_calls:
  assumes "snd (OAK_Camera_init calibData (wr, hr) mono_size ed sp lr) = Inr cam"
  shows "fst (OAK_Camera_init calibData (wr, hr) mono_size ed sp lr) =
           [Device_open, ReadCalibration,
            GetCameraIntrinsics RGB (fst mono_size) hr,
            GetCameraIntrinsics LEFT (fst mono_size) (snd mono_size),
            GetCameraIntrinsics RIGHT (fst mono_size) (snd mono_size),
            GetDistortionCoefficients LEFT, GetDistortionCoefficients RIGHT,
            GetFov RGB, GetFov LEFT,
            GetStereoLeftRectificationRotation, GetStereoRightRectificationRotation,
            GetBaselineDistance, Device_close]"
    and "rgb_width cam = wr" and "rgb_height cam = hr" and "nodes cam = []"
  using assms
  by (auto simp: OAK_Camera_init_def Let_def split: sum.splits if_splits)

lemma init_any_height:
  assumes "snd (OAK_Camera_init calibData (wr, hr) mono_size ed sp lr) = Inr cam"
  shows "\<exists>cam'. snd (OAK_Camera_init calibData (wr, hr') mono_size ed sp lr) = Inr cam'"
proof -
  from assms have "getBaselineDistance calibData \<noteq> 0"
    and "det3 (getCameraIntrinsics calibData LEFT (fst mono_size) (snd mono_size)) \<noteq> 0"
    and "det3 (getCameraIntrinsics calibData RIGHT (fst mono_size) (snd mono_size)) \<noteq> 0"
    by (auto simp: OAK_Camera_init_def Let_def linalg_inv_def split: sum.splits if_splits)
  then show ?thesis by (rule init_success)
qed

lemma example_init_720:
  "OAK_Camera_init example_calib (1280, 720) (1280, 720) True True True =
     ([Device_open, ReadCalibration,
      GetCameraIntrinsics RGB 1280 720, GetCameraIntrinsics LEFT 1280 720,
      GetCameraIntrinsics RIGHT 1280 720,
      GetDistortionCoefficients LEFT, GetDistortionCoefficients RIGHT,
      GetFov RGB, GetFov LEFT,
      GetStereoLeftRectificationRotation, GetStereoRightRectificationRotation,
      GetBaselineDistance, Device_close],
      Inr (example_cam\<lparr> rgb_width := 1280, rgb_height := 720,
                        M_rgb := ((860, 0, 640), (0, 860, 360), (0, 0, 1)) \<rparr>))"
  by (simp add: OAK_Camera_init_def example_calib_def example_cam_def linalg_inv_def
      Let_def mat_at_def identity3_def)

text \<open>
  With the colour size 1280 by 720 the constructor opens the device, reads the whole
  calibration and returns an object; only \<^verbatim>\<open>_target\<close>, run on it afterwards, raises.
  The failure does not precede all device I/O.
\<close>

theorem unsupported_height_counterexample:
  "OAK_Camera_init example_calib (1280, 720) (1280, 720) True True True =
     ([Device_open, ReadCalibration,
      GetCameraIntrinsics RGB 1280 720, GetCameraIntrinsics LEFT 1280 720,
      GetCameraIntrinsics RIGHT 1280 720,
      GetDistortionCoefficients LEFT, GetDistortionCoefficients RIGHT,
      GetFov RGB, GetFov LEFT,
      GetStereoLeftRectificationRotation, GetStereoRightRectificationRotation,
      GetBaselineDistance, Device_close],
      Inr (example_cam\<lparr> rgb_width := 1280, rgb_height := 720,
                        M_rgb := ((860, 0, 640), (0, 860, 360), (0, 0, 1)) \<rparr>))
   \<and> target [] (example_cam\<lparr> rgb_width := 1280, rgb_height := 720,
                        M_rgb := ((860, 0, 640), (0, 860, 360), (0, 0, 1)) \<rparr>)
       = ([], Some (Inl (NotImplementedError 1280 720)))"
  using example_init_720 create_cam_rgb_height [of "example_cam\<lparr> rgb_width := 1280, rgb_height := 720,
                        M_rgb := ((860, 0, 640), (0, 860, 360), (0, 0, 1)) \<rparr>" "[]"]
  by simp

text \<open>
  C6, amended. The constructor does not test the height (it returns for every height
  if it returns for one) and has read the calibration from the device when it returns. The pipeline is built afterwards, by \<^verbatim>\<open>_target\<close>: with a
  height of 1080 or 2160 \<^verbatim>\<open>_create_cam_rgb\<close> returns, the colour node has the matching
  sensor preset and the configured video size, and \<^verbatim>\<open>_target\<close> goes on to open the
  device with the pipeline; with any other height \<^verbatim>\<open>_target\<close> raises
  \<^verbatim>\<open>NotImplementedError\<close> carrying the configured size before it makes any call on the
  device, so the device is never started with the pipeline. The height is not replaced
  by a supported one.
\<close>

theorem rgb_height_decides_build:
  assumes "snd (OAK_Camera_init calibData (wr, hr) mono_size ed sp lr) = Inr cam"
  shows "fst (OAK_Camera_init calibData (wr, hr) mono_size ed sp lr) =
           [Device_open, ReadCalibration,
            GetCameraIntrinsics RGB (fst mono_size) hr,
            GetCameraIntrinsics LEFT (fst mono_size) (snd mono_size),
            GetCameraIntrinsics RIGHT (fst mono_size) (snd mono_size),
            GetDistortionCoefficients LEFT, GetDistortionCoefficients RIGHT,
            GetFov RGB, GetFov LEFT,
            GetStereoLeftRectificationRotation, GetStereoRightRectificationRotation,
            GetBaselineDistance, Device_close]
       \<and> (\<forall>hr'. \<exists>cam'. snd (OAK_Camera_init calibData (wr, hr') mono_size ed sp lr) = Inr cam')
       \<and> (hr = 1080 \<or> hr = 2160 \<longrightarrow>
            (\<exists>cam1. create_cam_rgb cam = Inr cam1
               \<and> nodes cam1 =
                   [(''color_camera'',
                     ColorCameraNode
                       \<lparr> cc_boardSocket = RGB,
                         cc_resolution = (if hr = 1080 then THE_1080_P else THE_4_K),
                         cc_videoSize = (wr, hr) \<rparr>,
                     Some \<lparr> streamName = ''color_camera'',
                       input_blocking = Some False, input_queueSize = Some 1 \<rparr>)]
               \<and> hd (fst (target rounds cam))
                   = Device_open_pipeline (pipeline (create_stereo cam1))))
       \<and> (hr \<noteq> 1080 \<and> hr \<noteq> 2160 \<longrightarrow>
            target rounds cam = ([], Some (Inl (NotImplementedError wr hr))))"
  using init_calls [OF assms] init_any_height [OF assms] create_cam_rgb_height [of cam rounds]
  by auto

theorem rgb_height_decides_build_witness:
  "(\<exists>cam1. create_cam_rgb example_cam = Inr cam1
      \<and> nodes cam1 =
          [(''color_camera'',
            ColorCameraNode \<lparr> cc_boardSocket = RGB, cc_resolution = THE_1080_P,
                              cc_videoSize = (1920, 1080) \<rparr>,
            Some \<lparr> streamName = ''color_camera'',
                       input_blocking = Some False, input_queueSize = Some 1 \<rparr>)]
      \<and> hd (fst (target [] example_cam)) = Device_open_pipeline (pipeline (create_stereo cam1)))
   \<and> target [] (example_cam\<lparr> rgb_width := 1280, rgb_height := 720,
                        M_rgb := ((860, 0, 640), (0, 860, 360), (0, 0, 1)) \<rparr>)
       = ([], Some (Inl (NotImplementedError 1280 720)))"
proof -
  have i: "snd (OAK_Camera_init example_calib (1280, 720) (1280, 720) True True True) =
             Inr (example_cam\<lparr> rgb_width := 1280, rgb_height := 720,
                        M_rgb := ((860, 0, 640), (0, 860, 360), (0, 0, 1)) \<rparr>)"
    by (simp add: example_init_720)
  from rgb_height_decides_build [OF example_init, of "[]"]
    rgb_height_decides_build [OF i, of "[]"]
  show ?thesis by simp
qed

subsection \<open>A zero baseline\<close>

text \<open>With a baseline of zero the example calibration makes the constructor read
  everything from the device, close it, and then raise \<^verbatim>\<open>ZeroDivisionError\<close>.\<close>

theorem zero_baseline_counterexample:
  "OAK_Camera_init (example_calib\<lparr>getBaselineDistance := 0\<rparr>) (1920, 1080) (1280, 720)
     True True True =
   ([Device_open, ReadCalibration,
     GetCameraIntrinsics RGB 1280 1080, GetCameraIntrinsics LEFT 1280 720,
     GetCameraIntrinsics RIGHT 1280 720,
     GetDistortionCoefficients LEFT, GetDistortionCoefficients RIGHT,
     GetFov RGB, GetFov LEFT,
     GetStereoLeftRectificationRotation, GetStereoRightRectificationRotation,
     GetBaselineDistance, Device_close],
    Inl ZeroDivisionError)"
  by (simp add: OAK_Camera_init_def example_calib_def linalg_inv_def Let_def)

text \<open>
  C7, amended. A baseline of zero never yields a camera object. No test precedes the
  construction of \<open>Q\<close>: with invertible intrinsics the failure is the
  \<^verbatim>\<open>ZeroDivisionError\<close> of the division \<^verbatim>\<open>-1.0 / baseline\<close> in the rows of \<open>Q\<close>,
  after the baseline has been read from the device.
\<close>

theorem zero_baseline_fails:
  assumes "getBaselineDistance calibData = 0"
  shows "(\<exists>e. snd (OAK_Camera_init calibData rgb_size mono_size ed sp lr) = Inl e)
       \<and> (det3 (getCameraIntrinsics calibData LEFT (fst mono_size) (snd mono_size)) \<noteq> 0
          \<and> det3 (getCameraIntrinsics calibData RIGHT (fst mono_size) (snd mono_size)) \<noteq> 0
          \<longrightarrow> snd (OAK_Camera_init calibData rgb_size mono_size ed sp lr) = Inl ZeroDivisionError
            \<and> GetBaselineDistance \<in> set (fst (OAK_Camera_init calibData rgb_size mono_size ed sp lr)))"
  using assms
  by (auto simp: OAK_Camera_init_def linalg_inv_def Let_def split: sum.splits)

theorem zero_baseline_fails_witness:
  "snd (OAK_Camera_init (example_calib\<lparr>getBaselineDistance := 0\<rparr>) (1920, 1080) (1280, 720)
         True True True) = Inl ZeroDivisionError
   \<and> GetBaselineDistance \<in> set (fst (OAK_Camera_init (example_calib\<lparr>getBaselineDistance := 0\<rparr>)
         (1920, 1080) (1280, 720) True True True))"
proof -
  have b: "getBaselineDistance (example_calib\<lparr>getBaselineDistance := 0\<rparr>) = 0"
    by simp
  have l: "det3 (getCameraIntrinsics (example_calib\<lparr>getBaselineDistance := 0\<rparr>) LEFT
                   (fst (1280 :: int, 720 :: int)) (snd (1280 :: int, 720 :: int))) \<noteq> 0"
    by (simp add: example_calib_def Let_def)
  have r: "det3 (getCameraIntrinsics (example_calib\<lparr>getBaselineDistance := 0\<rparr>) RIGHT
                   (fst (1280 :: int, 720 :: int)) (snd (1280 :: int, 720 :: int))) \<noteq> 0"
    by (simp add: example_calib_def Let_def)
  from zero_baseline_fails [OF b, of "(1920, 1080)" "(1280, 720)" True True True] l r
  show ?thesis by blast
qed

subsection \<open>The queues and one iteration of the loop\<close>

lemma example_create_cam_rgb:
  "\<exists>cam1. create_cam_rgb example_cam = Inr cam1 \<and> example_built = create_stereo cam1"
  by (simp add: example_built_def create_cam_rgb_def example_cam_def Let_def)

lemma built_queues:
  assumes "nodes cam = []" and "create_cam_rgb cam = Inr cam1"
  shows "get_output_queues (nodes (create_stereo cam1)) = target_queues"
  using assms
  by (auto simp: create_cam_rgb_def create_stereo_def get_output_queues_def Let_def
           target_queues_def split: if_splits)

lemma target_queue_names:
  "map fst target_queues =
     [''color_camera'', ''stereo'', ''mono_left'', ''mono_right'',
      ''rectified_left'', ''rectified_right'']"
  by (simp add: target_queues_def)

text \<open>An iteration in which every queue delivers a message.\<close>

lemma poll_target_queues_all:
  assumes "get ''color_camera'' \<noteq> None" and "get ''stereo'' \<noteq> None"
    and "get ''mono_left'' \<noteq> None" and "get ''mono_right'' \<noteq> None"
    and "get ''rectified_left'' \<noteq> None" and "get ''rectified_right'' \<noteq> None"
  shows "poll_queues target_queues get c =
     ([''color_camera'', ''stereo'', ''mono_left'', ''mono_right'',
       ''rectified_left'', ''rectified_right''],
      Some (setattr (setattr (setattr (setattr (setattr c
              ''_color_frame'' (get ''color_camera''))
              ''_left_frame'' (get ''mono_left''))
              ''_right_frame'' (get ''mono_right''))
              ''_left_rect_frame'' (get ''rectified_left''))
              ''_right_rect_frame'' (get ''rectified_right'')))"
  using assms by (auto simp: target_queues_def handle_queue_def)

text \<open>The queues on which an iteration calls \<open>get\<close>: those declared, in order, up to
  the first one that delivers nothing; and the iteration returns when there is none.\<close>

lemma poll_queues_calls:
  assumes "list_all (\<lambda>(key, q). q = Some \<lparr> q_name = key, q_maxSize = 1, q_blocking = False \<rparr>) qs"
  shows "fst (poll_queues qs get c) =
           take (Suc (length (takeWhile (\<lambda>name. get name \<noteq> None) (map fst qs)))) (map fst qs)
       \<and> (snd (poll_queues qs get c) = None) = (\<exists>name \<in> set (map fst qs). get name = None)"
  using assms
proof (induction qs arbitrary: c)
  case Nil
  show ?case by simp
next
  case (Cons kq qs)
  from Cons.prems obtain key
    where kq: "kq = (key, Some \<lparr> q_name = key, q_maxSize = 1, q_blocking = False \<rparr>)"
      and rest: "list_all (\<lambda>(key, q). q = Some \<lparr> q_name = key, q_maxSize = 1, q_blocking = False \<rparr>) qs"
    by (cases kq) auto
  show ?case
  proof (cases "get key")
    case None
    then show ?thesis by (simp add: kq)
  next
    case (Some data)
    with Cons.IH [OF rest, of "handle_queue key data c"] show ?thesis
      by (simp add: kq)
  qed
qed

lemma target_queues_uniform:
  "list_all (\<lambda>(key, q). q = Some \<lparr> q_name = key, q_maxSize = 1, q_blocking = False \<rparr>)
     target_queues"
  by (simp add: target_queues_def)

text \<open>
  C8, amended. Every output queue is requested with \<open>maxSize = 1\<close> and
  \<open>blocking = False\<close>, and an iteration calls the blocking \<open>get\<close> once on every queue, in
  the order of declaration. When each of the six queues delivers a message the
  iteration returns, with the frames of \<open>color_camera\<close>, \<open>mono_left\<close>, \<open>mono_right\<close>,
  \<open>rectified_left\<close> and \<open>rectified_right\<close> stored. A queue on which no message arrives
  is not skipped with its slot unchanged: \<open>get\<close> waits there, the iteration does not
  return and no later queue is read.
\<close>

theorem queue_discipline:
  assumes "nodes cam = []" and "create_cam_rgb cam = Inr cam1"
  shows "get_output_queues (nodes (create_stereo cam1)) = target_queues
       \<and> list_all (\<lambda>(key, q). q = Some \<lparr> q_name = key, q_maxSize = 1, q_blocking = False \<rparr>)
           target_queues
       \<and> map fst target_queues =
           [''color_camera'', ''stereo'', ''mono_left'', ''mono_right'',
            ''rectified_left'', ''rectified_right'']
       \<and> fst (poll_queues target_queues get c) =
           take (Suc (length (takeWhile (\<lambda>name. get name \<noteq> None) (map fst target_queues))))
             (map fst target_queues)
       \<and> ((\<forall>name \<in> set (map fst target_queues). get name \<noteq> None) \<longrightarrow>
            poll_queues target_queues get c =
              (map fst target_queues,
               Some (setattr (setattr (setattr (setattr (setattr c
                       ''_color_frame'' (get ''color_camera''))
                       ''_left_frame'' (get ''mono_left''))
                       ''_right_frame'' (get ''mono_right''))
                       ''_left_rect_frame'' (get ''rectified_left''))
                       ''_right_rect_frame'' (get ''rectified_right''))))
       \<and> ((\<exists>name \<in> set (map fst target_queues). get name = None) \<longrightarrow>
            snd (poll_queues target_queues get c) = None)"
proof -
  have "(\<forall>name \<in> set (map fst target_queues). get name \<noteq> None) \<longrightarrow>
            poll_queues target_queues get c =
              (map fst target_queues,
               Some (setattr (setattr (setattr (setattr (setattr c
                       ''_color_frame'' (get ''color_camera''))
                       ''_left_frame'' (get ''mono_left''))
                       ''_right_frame'' (get ''mono_right''))
                       ''_left_rect_frame'' (get ''rectified_left''))
                       ''_right_rect_frame'' (get ''rectified_right'')))"
    unfolding target_queue_names by (simp add: poll_target_queues_all)
  moreover have "(\<exists>name \<in> set (map fst target_queues). get name = None) \<longrightarrow>
            snd (poll_queues target_queues get c) = None"
    using poll_queues_calls [OF target_queues_uniform, of get c] by blast
  moreover have "fst (poll_queues target_queues get c) =
           take (Suc (length (takeWhile (\<lambda>name. get name \<noteq> None) (map fst target_queues))))
             (map fst target_queues)"
    using poll_queues_calls [OF target_queues_uniform, of get c] by blast
  ultimately show ?thesis
    using built_queues [OF assms] target_queues_uniform target_queue_names
    by blast
qed

theorem queue_discipline_witness:
  "get_output_queues (nodes example_built) = target_queues
   \<and> (\<exists>c'. poll_queues target_queues example_get example_built =
              ([''color_camera'', ''stereo'', ''mono_left'', ''mono_right'',
                ''rectified_left'', ''rectified_right''], Some c'))
   \<and> poll_queues target_queues (example_get(''stereo'' := None)) example_built =
       ([''color_camera'', ''stereo''], None)"
proof -
  let ?blocked = "example_get(''stereo'' := None)"
  from example_create_cam_rgb obtain cam1
    where c: "create_cam_rgb example_cam = Inr cam1" and b: "example_built = create_stereo cam1"
    by blast
  have n: "nodes example_cam = []"
    by (simp add: example_cam_def)
  have g: "\<forall>name \<in> set (map fst target_queues). example_get name \<noteq> None"
    by (simp add: target_queue_names example_get_def)
  have g': "\<exists>name \<in> set (map fst target_queues). ?blocked name = None"
    by (simp add: target_queue_names)
  have t: "take (Suc (length (takeWhile (\<lambda>name. ?blocked name \<noteq> None)
                                (map fst target_queues)))) (map fst target_queues)
             = [''color_camera'', ''stereo'']"
    by (simp add: target_queue_names example_get_def)
  note q1 = queue_discipline [OF n c, of example_get example_built]
  note q2 = queue_discipline [OF n c, of ?blocked example_built]
  from q1 have all: "(\<forall>name \<in> set (map fst target_queues). example_get name \<noteq> None) \<longrightarrow>
      (\<exists>c'. poll_queues target_queues example_get example_built = (map fst target_queues, Some c'))"
    by blast
  from all g have "\<exists>c'. poll_queues target_queues example_get example_built =
                          (map fst target_queues, Some c')"
    by (rule mp)
  then have r1: "\<exists>c'. poll_queues target_queues example_get example_built =
              ([''color_camera'', ''stereo'', ''mono_left'', ''mono_right'',
                ''rectified_left'', ''rectified_right''], Some c')"
    unfolding target_queue_names .
  from q2 have f2: "fst (poll_queues target_queues ?blocked example_built) =
      take (Suc (length (takeWhile (\<lambda>name. ?blocked name \<noteq> None) (map fst target_queues))))
        (map fst target_queues)"
    by (rule conjunct2 [THEN conjunct2, THEN conjunct2, THEN conjunct1])
  from q2 have s2: "(\<exists>name \<in> set (map fst target_queues). ?blocked name = None) \<longrightarrow>
      snd (poll_queues target_queues ?blocked example_built) = None"
    by (rule conjunct2 [THEN conjunct2, THEN conjunct2, THEN conjunct2, THEN conjunct2])
  from s2 g' have s2': "snd (poll_queues target_queues ?blocked example_built) = None"
    by (rule mp)
  from f2 t have f2': "fst (poll_queues target_queues ?blocked example_built)
                         = [''color_camera'', ''stereo'']"
    by (rule trans)
  have r2: "poll_queues target_queues ?blocked example_built = ([''color_camera'', ''stereo''], None)"
    using f2' s2' by (simp add: prod_eq_iff)
  from q1 have "get_output_queues (nodes (create_stereo cam1)) = target_queues"
    by (rule conjunct1)
  then have r0: "get_output_queues (nodes example_built) = target_queues"
    unfolding b .
  from r0 r1 r2 show ?thesis by blast
qed

text \<open>No message arrives on the colour queue and every other queue has one: the
  iteration waits in the first \<open>get\<close> and does not return; it does not go on to the
  other queues with the colour slot unchanged.\<close>

theorem absent_frame_counterexample:
  "poll_queues (get_output_queues (nodes example_built))
     (example_get(''color_camera'' := None)) example_built
   = ([''color_camera''], None)"
  by (simp add: example_built_def create_cam_rgb_def create_stereo_def example_cam_def Let_def
      get_output_queues_def)

subsection \<open>The accessors after an iteration\<close>

lemma getattr_setattr:
  "getattr (setattr cam a v) b = (if a = b then Inr v else getattr cam b)"
  by (simp add: getattr_def setattr_def)

text \<open>
  C1. The claim is that a frame received from a stream's queue is what the stream's
  accessor returns after the iteration. On the example every queue delivers a frame,
  the colour queue the frame \<open>[[1]]\<close>; the iteration stores it under \<^verbatim>\<open>_color_frame\<close>
  and \<open>rgb_frame\<close>, which reads \<^verbatim>\<open>_rgb_frame\<close>, still returns \<open>None\<close>. The accessors
  of the disparity and of the two rectified frames return \<open>None\<close> as well; only the
  left and right mono frames reach their accessors.
\<close>

theorem color_frame_not_published:
  "\<exists>cam'. poll_queues (get_output_queues (nodes example_built)) example_get example_built
             = ([''color_camera'', ''stereo'', ''mono_left'', ''mono_right'',
                 ''rectified_left'', ''rectified_right''], Some cam')
      \<and> example_get ''color_camera'' = Some [[1]]
      \<and> rgb_frame cam' = Inr None
      \<and> getattr cam' ''_color_frame'' = Inr (Some [[1]])
      \<and> disparity cam' = Inr None
      \<and> rectified_left_frame cam' = Inr None
      \<and> rectified_right_frame cam' = Inr None
      \<and> left_frame cam' = Inr (Some [[3]])
      \<and> right_frame cam' = Inr (Some [[4]])"
proof -
  from example_create_cam_rgb obtain cam1
    where c: "create_cam_rgb example_cam = Inr cam1" and b: "example_built = create_stereo cam1"
    by blast
  have n: "nodes example_cam = []"
    by (simp add: example_cam_def)
  have q: "get_output_queues (nodes example_built) = target_queues"
    unfolding b by (rule built_queues [OF n c])
  have f: "frame_attrs example_built = frame_attrs example_cam"
    unfolding b using c by (auto simp: create_stereo_def create_cam_rgb_def Let_def split: if_splits)
  have g: "example_get ''color_camera'' \<noteq> None" "example_get ''stereo'' \<noteq> None"
    "example_get ''mono_left'' \<noteq> None" "example_get ''mono_right'' \<noteq> None"
    "example_get ''rectified_left'' \<noteq> None" "example_get ''rectified_right'' \<noteq> None"
    by (simp_all add: example_get_def)
  show ?thesis
    unfolding q poll_target_queues_all [OF g]
    by (simp add: example_get_def rgb_frame_def disparity_def rectified_left_frame_def
        rectified_right_frame_def left_frame_def right_frame_def getattr_setattr)
      (simp add: getattr_def f example_cam_def)
qed

text \<open>No run of \<^verbatim>\<open>_target\<close> changes what these four accessors return.\<close>

lemma kept_handle_queue:
  "never_written a \<Longrightarrow> frame_attrs (handle_queue name data cam) a = frame_attrs cam a"
  by (auto simp: handle_queue_def setattr_def never_written_def)

lemma kept_poll_queues:
  "snd (poll_queues qs get cam) = Some cam' \<Longrightarrow> never_written a \<Longrightarrow>
     frame_attrs cam' a = frame_attrs cam a"
proof (induction qs get cam rule: poll_queues.induct)
  case (1 get cam)
  then show ?case by simp
next
  case (2 name qs get cam)
  then show ?case by simp
next
  case (3 name queue qs get cam)
  from "3.prems" obtain data where g: "get (q_name queue) = Some data"
    and p: "snd (poll_queues qs get (handle_queue name data cam)) = Some cam'"
    by (auto split: option.splits)
  from "3.IH" [OF g p "3.prems"(2)] kept_handle_queue [OF "3.prems"(2)] show ?case by simp
qed

lemma kept_acquisition_loop:
  "acquisition_loop qs rounds cam = Some cam' \<Longrightarrow> never_written a \<Longrightarrow>
     frame_attrs cam' a = frame_attrs cam a"
proof (induction rounds arbitrary: cam)
  case Nil
  then show ?case by simp
next
  case (Cons get rounds)
  show ?case
  proof (cases "stopped cam")
    case True
    with Cons.prems show ?thesis by simp
  next
    case False
    with Cons.prems obtain cam1 where p: "snd (poll_queues qs get cam) = Some cam1"
      and l: "acquisition_loop qs rounds cam1 = Some cam'"
      by (auto split: option.splits)
    from Cons.IH [OF l Cons.prems(2)] kept_poll_queues [OF p Cons.prems(2)]
    show ?thesis by simp
  qed
qed

lemma frame_attrs_create_cam_rgb:
  "create_cam_rgb cam = Inr cam' \<Longrightarrow> frame_attrs cam' = frame_attrs cam"
  by (auto simp: create_cam_rgb_def Let_def split: if_splits)

lemma frame_attrs_create_stereo: "frame_attrs (create_stereo cam) = frame_attrs cam"
  by (simp add: create_stereo_def Let_def)

lemma kept_target:
  assumes "snd (target rounds cam) = Some (Inr cam')" and "never_written a"
  shows "frame_attrs cam' a = frame_attrs cam a"
proof -
  from assms(1) obtain cam1 where c: "create_cam_rgb cam = Inr cam1"
    and l: "acquisition_loop (get_output_queues (nodes (create_stereo cam1))) rounds
              (create_stereo cam1) = Some cam'"
    by (auto simp: target_def Let_def split: sum.splits option.splits)
  from kept_acquisition_loop [OF l assms(2)] frame_attrs_create_cam_rgb [OF c]
  show ?thesis by (simp add: frame_attrs_create_stereo)
qed

lemma accessors_never_updated:
  assumes "snd (target rounds cam) = Some (Inr cam')"
  shows "rgb_frame cam' = rgb_frame cam" "disparity cam' = disparity cam"
    "rectified_left_frame cam' = rectified_left_frame cam"
    "rectified_right_frame cam' = rectified_right_frame cam"
  by (simp_all add: rgb_frame_def disparity_def rectified_left_frame_def
        rectified_right_frame_def getattr_def kept_target [OF assms] never_written_def)

subsection \<open>\<^verbatim>\<open>compute_3d\<close>\<close>

lemma init_frame_attrs:
  assumes "snd (OAK_Camera_init calibData rgb_size mono_size ed sp lr) = Inr cam"
  shows "frame_attrs cam =
           [''_rgb_frame'' \<mapsto> None, ''_depth_frame'' \<mapsto> None,
            ''_left_frame'' \<mapsto> None, ''_right_frame'' \<mapsto> None,
            ''_rectified_left_frame'' \<mapsto> None,
            ''_rectified_right_frame'' \<mapsto> None]"
  using assms
  by (auto simp: OAK_Camera_init_def Let_def split: sum.splits if_splits)

lemma accessors_after_init:
  assumes "snd (OAK_Camera_init calibData rgb_size mono_size ed sp lr) = Inr cam"
  shows "rgb_frame cam = Inr None" "disparity cam = Inr None" "left_frame cam = Inr None"
    "right_frame cam = Inr None" "rectified_left_frame cam = Inr None"
    "rectified_right_frame cam = Inr None"
  by (simp_all add: rgb_frame_def disparity_def rectified_left_frame_def
        rectified_right_frame_def left_frame_def right_frame_def getattr_def
        init_frame_attrs [OF assms])

lemma compute_3d_after_init:
  assumes "snd (OAK_Camera_init calibData rgb_size mono_size ed sp lr) = Inr cam"
  shows "compute_3d reprojectImageTo3D cam = Inl (AttributeError ''_disparity'')"
  by (simp add: compute_3d_def getattr_def init_frame_attrs [OF assms])

text \<open>
  C2. The claim is that on a new object every accessor returns \<open>None\<close> and
  \<open>compute_3d\<close> returns the "not ready" value. The accessors do; \<open>compute_3d\<close> reads
  \<^verbatim>\<open>self._disparity\<close>, which the constructor never assigns, and raises
  \<^verbatim>\<open>AttributeError\<close>, on the new object and also once the acquisition thread has
  built the pipeline and no frame has arrived.
\<close>

theorem compute_3d_before_first_frame:
  "snd (OAK_Camera_init example_calib (1920, 1080) (1280, 720) True True True) = Inr example_cam
   \<and> rgb_frame example_cam = Inr None \<and> disparity example_cam = Inr None
   \<and> left_frame example_cam = Inr None \<and> right_frame example_cam = Inr None
   \<and> rectified_left_frame example_cam = Inr None
   \<and> rectified_right_frame example_cam = Inr None
   \<and> compute_3d (\<lambda>disparity_map q. disparity_map) example_cam
       = Inl (AttributeError ''_disparity'')
   \<and> compute_3d (\<lambda>disparity_map q. disparity_map) example_built
       = Inl (AttributeError ''_disparity'')"
proof -
  from example_create_cam_rgb obtain cam1
    where c: "create_cam_rgb example_cam = Inr cam1" and b: "example_built = create_stereo cam1"
    by blast
  have "frame_attrs example_built = frame_attrs example_cam"
    unfolding b frame_attrs_create_stereo by (rule frame_attrs_create_cam_rgb [OF c])
  then have "frame_attrs example_built ''_disparity'' = None"
    by (simp add: init_frame_attrs [OF example_init])
  then have "compute_3d (\<lambda>disparity_map q. disparity_map) example_built
               = Inl (AttributeError ''_disparity'')"
    by (simp add: compute_3d_def getattr_def)
  with example_init accessors_after_init [OF example_init]
    compute_3d_after_init [OF example_init]
  show ?thesis by simp
qed

text \<open>What \<open>compute_3d\<close> returns when both attributes exist, and that it never has a
  point cloud to return after a run of \<^verbatim>\<open>_target\<close> on a new object: the loop does not
  assign \<^verbatim>\<open>_rectified_left_frame\<close>.\<close>

lemma compute_3d_not_ready:
  assumes "getattr cam ''_disparity'' = Inr d" and "getattr cam ''_rectified_left_frame'' = Inr l"
    and "d = None \<or> l = None"
  shows "compute_3d reprojectImageTo3D cam = Inr (None, None, None)"
  using assms by (auto simp: compute_3d_def)

lemma compute_3d_ready:
  assumes "getattr cam ''_disparity'' = Inr (Some d)"
    and "getattr cam ''_rectified_left_frame'' = Inr (Some l)"
  shows "compute_3d reprojectImageTo3D cam = Inr (Some (reprojectImageTo3D d (Q cam)), Some d, Some l)"
  using assms by (simp add: compute_3d_def)

lemma compute_3d_never_ready:
  assumes "snd (OAK_Camera_init calibData rgb_size mono_size ed sp lr) = Inr cam"
    and "snd (target rounds cam) = Some (Inr cam')"
  shows "compute_3d reprojectImageTo3D cam' = Inl (AttributeError ''_disparity'')
       \<or> compute_3d reprojectImageTo3D cam' = Inr (None, None, None)"
proof -
  have "frame_attrs cam' ''_rectified_left_frame'' = Some None"
    using kept_target [OF assms(2), of "''_rectified_left_frame''"] init_frame_attrs [OF assms(1)]
    by (simp add: never_written_def)
  then show ?thesis
    by (auto simp: compute_3d_def getattr_def split: option.splits)
qed

end
